theory Spec2Isabelle
  imports Complex_Main
begin

section \<open>Data model of the badge evaluation service\<close>

text \<open>
  The service is \<^verbatim>\<open>supabase/functions/generate-image/index.ts\<close> (second document of the
  file, "Badge Evaluation Service"); the tables are those of the migration
  \<^verbatim>\<open>20260118225803_...sql\<close>.

  Numbers. The counters of a progress row are \<^verbatim>\<open>INTEGER NOT NULL\<close> columns without a
  sign constraint and TypeScript \<^verbatim>\<open>number\<close>s in the service, so they are modelled as
  \<^typ>\<open>int\<close>. The intent score is a JavaScript double computed from them with \<^verbatim>\<open>/\<close>,
  \<^verbatim>\<open>+\<close> and \<^verbatim>\<open>Math.min\<close>; the model computes it in exact arithmetic over \<^typ>\<open>real\<close>.

  Time. A \<^verbatim>\<open>Date\<close> is modelled by its value in milliseconds since the epoch, a calendar
  date (\<^verbatim>\<open>toISOString().split('T')[0]\<close>, column type \<^verbatim>\<open>DATE\<close>) by its day number, so
  that the day before day \<open>d\<close> is \<open>d - 1\<close>. \<open>utc_date\<close> is the date part of
  \<^verbatim>\<open>toISOString()\<close>.
\<close>

type_synonym timestamp = int
type_synonym date = int

definition utc_date :: "timestamp \<Rightarrow> date" where
  "utc_date t = t div 86400000"

text \<open>\<^verbatim>\<open>interface BadgeCriteria\<close>: every key is optional. The three \<^verbatim>\<open>state_n\<close> objects
  are modelled by their fields (\<^verbatim>\<open>shares\<close>, and \<^verbatim>\<open>shares\<close> with \<^verbatim>\<open>engagement\<close>).\<close>

record BadgeCriteria =
  min_transactions :: "int option"
  min_consecutive_days :: "int option"
  min_protocols :: "int option"
  verified_on_chain :: "bool option"
  first_24h_launch :: "bool option"
  mainnet_first_24h :: "bool option"
  protocol :: "string option"
  within_days :: "int option"
  state_1 :: "int option"
  state_2 :: "int option"
  state_3 :: "(int \<times> int) option"

text \<open>\<^verbatim>\<open>interface UserProgress\<close>, one row of \<^verbatim>\<open>user_badge_progress\<close>.\<close>

record UserProgress =
  user_id :: string
  wallet_address :: string
  total_transactions :: int
  unique_protocols :: int
  protocols_interacted :: "string list"
  consecutive_days :: int
  last_active_date :: "date option"
  max_consecutive_days :: int
  social_shares :: int
  total_engagement :: int
  voice_state :: int
  intent_score :: real
  current_identity_badge :: "string option"

text \<open>\<^verbatim>\<open>interface Badge\<close>, one row of \<^verbatim>\<open>badges\<close> (\<^verbatim>\<open>id\<close> and \<^verbatim>\<open>name\<close> are called
  \<open>badge_id\<close> and \<open>badge_name\<close> here; \<open>is_active\<close> is the column the catalog query
  filters on).\<close>

record Badge =
  badge_id :: string
  slug :: string
  badge_name :: string
  layer :: string
  rarity :: string
  criteria :: BadgeCriteria
  is_progression :: bool
  progression_order :: "int option"
  event_window_start :: "timestamp option"
  event_window_end :: "timestamp option"
  is_active :: bool

section \<open>The pure functions of the service\<close>

text \<open>\<^verbatim>\<open>calculateIntentScore\<close>: five capped ratios, summed, the sum capped at 10.\<close>

definition calculateIntentScore :: "UserProgress \<Rightarrow> real" where
  "calculateIntentScore progress =
     min (min (real_of_int (total_transactions progress) / 50) 2
        + min (real_of_int (unique_protocols progress) / 5) 2
        + min (real_of_int (consecutive_days progress) / 10) 3
        + min (real_of_int (max_consecutive_days progress) / 15) 2
        + min (real_of_int (social_shares progress) / 10) 1) 10"

text \<open>JavaScript truthiness of an optional number (\<^verbatim>\<open>undefined\<close> and \<^verbatim>\<open>0\<close> are falsy)
  and of an optional boolean, as used by the guards \<^verbatim>\<open>criteria.key && ...\<close>.\<close>

fun truthy_number :: "int option \<Rightarrow> bool" where
  "truthy_number None = False"
| "truthy_number (Some n) = (n \<noteq> 0)"

fun truthy_boolean :: "bool option \<Rightarrow> bool" where
  "truthy_boolean None = False"
| "truthy_boolean (Some b) = b"

text \<open>The comparison \<^verbatim>\<open>value < criteria.key\<close> of a counter with a key that is present.\<close>

fun below :: "int \<Rightarrow> int option \<Rightarrow> bool" where
  "below v None = False"
| "below v (Some n) = (v < n)"

text \<open>The event-window test: both bounds present (non-null), and \<^verbatim>\<open>now < start || now > end\<close>.\<close>

fun outside_window :: "timestamp \<Rightarrow> timestamp option \<Rightarrow> timestamp option \<Rightarrow> bool" where
  "outside_window now (Some start) (Some end) = (now < start \<or> now > end)"
| "outside_window now _ _ = False"

text \<open>\<^verbatim>\<open>checkBadgeCriteria\<close>; \<open>now\<close> is the value of \<^verbatim>\<open>new Date()\<close> read inside it.\<close>

definition checkBadgeCriteria :: "timestamp \<Rightarrow> Badge \<Rightarrow> UserProgress \<Rightarrow> bool" where
  "checkBadgeCriteria now badge progress =
     (let c = criteria badge in
      if truthy_number (min_transactions c)
           \<and> below (total_transactions progress) (min_transactions c) then False
      else if truthy_number (min_consecutive_days c)
           \<and> below (consecutive_days progress) (min_consecutive_days c) then False
      else if truthy_number (min_protocols c)
           \<and> below (unique_protocols progress) (min_protocols c) then False
      else if truthy_boolean (verified_on_chain c) \<and> total_transactions progress < 1 then False
      else if outside_window now (event_window_start badge) (event_window_end badge) then False
      else True)"

text \<open>\<^verbatim>\<open>getVoiceState\<close>.\<close>

definition getVoiceState :: "UserProgress \<Rightarrow> int" where
  "getVoiceState progress =
     (if social_shares progress \<ge> 10 \<and> total_engagement progress \<ge> 100 then 3
      else if social_shares progress \<ge> 5 then 2
      else if social_shares progress \<ge> 1 then 1
      else 0)"

text \<open>The row that the insert of \<^verbatim>\<open>{user_id, wallet_address}\<close> creates: every other
  column takes its default of the migration.\<close>

definition new_progress :: "string \<Rightarrow> string \<Rightarrow> UserProgress" where
  "new_progress uid wallet =
     \<lparr> user_id = uid, wallet_address = wallet, total_transactions = 0, unique_protocols = 0,
       protocols_interacted = [], consecutive_days = 0, last_active_date = None,
       max_consecutive_days = 0, social_shares = 0, total_engagement = 0, voice_state = 0,
       intent_score = 0, current_identity_badge = None \<rparr>"

text \<open>The empty criteria object (the column default \<^verbatim>\<open>'{}'::jsonb\<close>) and a badge row with
  the column defaults, from which the seed rows of the migration are written.\<close>

definition no_criteria :: BadgeCriteria where
  "no_criteria =
     \<lparr> min_transactions = None, min_consecutive_days = None, min_protocols = None,
       verified_on_chain = None, first_24h_launch = None, mainnet_first_24h = None,
       protocol = None, within_days = None, state_1 = None, state_2 = None, state_3 = None \<rparr>"

definition badge_row ::
  "string \<Rightarrow> string \<Rightarrow> string \<Rightarrow> string \<Rightarrow> BadgeCriteria \<Rightarrow> Badge" where
  "badge_row bid s n l c =
     \<lparr> badge_id = bid, slug = s, badge_name = n, layer = l, rarity = ''common'', criteria = c,
       is_progression = False, progression_order = None, event_window_start = None,
       event_window_end = None, is_active = True \<rparr>"

section \<open>The request handler\<close>

text \<open>The JSON body of a request. \<^verbatim>\<open>eventData\<close> may be missing, and so may each of
  its keys (\<open>ev_protocol\<close> is the key \<^verbatim>\<open>protocol\<close>).\<close>

record EventData =
  ev_protocol :: "string option"
  txHash :: "string option"
  engagement :: "int option"

record Request =
  action :: string
  userId :: "string option"
  walletAddress :: "string option"
  eventData :: "EventData option"

text \<open>One row of \<^verbatim>\<open>badge_unlocks\<close>, with the columns the service writes.\<close>

record BadgeUnlock =
  ul_user_id :: string
  ul_wallet_address :: string
  ul_badge_id :: string
  trigger_event :: string
  trigger_tx_hash :: "string option"

text \<open>The three tables. \<^verbatim>\<open>user_badge_progress\<close> has \<^verbatim>\<open>UNIQUE (user_id)\<close>, so it is a
  map from the user id to the row.\<close>

record Database =
  user_badge_progress :: "string \<Rightarrow> UserProgress option"
  badges :: "Badge list"
  badge_unlocks :: "BadgeUnlock list"

text \<open>
  What the handler reads from outside: the clock, and for every datastore call whether
  that call reports an error.

  The clock is read twice in \<^verbatim>\<open>case 'transaction'\<close>. \<open>today\<close> is the date of the first
  read (\<^verbatim>\<open>new Date().toISOString().split('T')[0]\<close>). \<open>yesterdayStr\<close> is the date the
  source computes from the second read, \<^verbatim>\<open>new Date()\<close> followed by
  \<^verbatim>\<open>setDate(getDate() - 1)\<close> in the local time of the runtime and \<^verbatim>\<open>toISOString()\<close>;
  in a runtime on UTC it is the day before the date of the second read, which is the day
  before \<open>today\<close> only if both reads fall on the same day. \<open>now\<close> is the clock as
  \<^verbatim>\<open>checkBadgeCriteria\<close> reads it; one value serves all badges of a request.

  \<open>progress_select_error\<close> stands for an error other than \<^verbatim>\<open>PGRST116\<close> (no row), which
  is the case of a missing row of the table. \<open>score_update_error\<close> is an error of the
  final update of the score and identity badge: the source awaits that call and does not
  read its result, so the row is left as it was and the request goes on.
\<close>

record Env =
  now :: timestamp
  today :: date
  yesterdayStr :: date
  progress_select_error :: bool
  progress_create_error :: bool
  progress_update_error :: bool
  badges_error :: bool
  unlocks_error :: bool
  unlock_error :: "Badge \<Rightarrow> bool"
  score_update_error :: bool

text \<open>The success body; the three counters are the nested \<^verbatim>\<open>progress\<close> object.\<close>

record Summary =
  newUnlocks :: "string list"
  intentScore :: real
  currentIdentityBadge :: "string option"
  totalTransactions :: int
  uniqueProtocols :: int
  consecutiveDays :: int

datatype Response = Bad_Request | Internal_Error | Success Summary

text \<open>What handling a request leaves behind: the tables, the response (400, 500 or the
  success body) and the lines written with \<^verbatim>\<open>console.log\<close> and \<^verbatim>\<open>console.error\<close>.\<close>

record Outcome =
  tables :: Database
  response :: Response
  console :: "string list"

text \<open>Truthiness of an optional string: \<^verbatim>\<open>undefined\<close> and \<^verbatim>\<open>""\<close> are falsy.\<close>

fun truthy_string :: "string option \<Rightarrow> bool" where
  "truthy_string None = False"
| "truthy_string (Some s) = (s \<noteq> [])"

text \<open>\<^verbatim>\<open>engagement || 0\<close>. (On a counter column, \<^verbatim>\<open>progress.x || 0\<close> is \<open>x\<close> itself:
  the column is \<^verbatim>\<open>NOT NULL\<close> and \<^verbatim>\<open>0 || 0\<close> is \<open>0\<close>.)\<close>

fun or_zero :: "int option \<Rightarrow> int" where
  "or_zero None = 0"
| "or_zero (Some n) = n"

text \<open>\<^verbatim>\<open>if (protocol && !protocols.includes(protocol)) protocols.push(protocol)\<close>.\<close>

fun push_protocol :: "string option \<Rightarrow> string list \<Rightarrow> string list" where
  "push_protocol None protocols = protocols"
| "push_protocol (Some p) protocols =
     (if p \<noteq> [] \<and> p \<notin> set protocols then protocols @ [p] else protocols)"

text \<open>The streak computation of \<^verbatim>\<open>case 'transaction'\<close>, branch for branch, from the
  two dates the clock gave.\<close>

definition streak :: "date \<Rightarrow> date \<Rightarrow> date option \<Rightarrow> int \<Rightarrow> int" where
  "streak today' yesterdayStr' lastActive consecutiveDays' =
     (if lastActive \<noteq> Some today' then
        (if lastActive = Some yesterdayStr' then consecutiveDays' + 1
         else if lastActive \<noteq> Some today' then 1
         else consecutiveDays')
      else consecutiveDays')"

text \<open>\<^verbatim>\<open>case 'transaction'\<close>: the refreshed progress object. The update payload sent to
  the table holds the same six values, so this is also the row after the update.\<close>

definition transaction_progress ::
  "date \<Rightarrow> date \<Rightarrow> EventData option \<Rightarrow> UserProgress \<Rightarrow> UserProgress" where
  "transaction_progress today' yesterdayStr' ev progress =
     (let protocols = push_protocol (case ev of None \<Rightarrow> None | Some d \<Rightarrow> ev_protocol d)
                        (protocols_interacted progress);
          consecutiveDays' = streak today' yesterdayStr' (last_active_date progress)
                               (consecutive_days progress);
          maxConsecutive = max (max_consecutive_days progress) consecutiveDays'
      in progress\<lparr> total_transactions := total_transactions progress + 1,
                   unique_protocols := int (length protocols),
                   protocols_interacted := protocols,
                   consecutive_days := consecutiveDays',
                   last_active_date := Some today',
                   max_consecutive_days := maxConsecutive \<rparr>)"

text \<open>\<^verbatim>\<open>case 'social_share'\<close>: the refreshed progress object (two counters), and the row
  after the update, whose payload also carries \<^verbatim>\<open>voice_state\<close>.\<close>

definition social_share_progress :: "EventData option \<Rightarrow> UserProgress \<Rightarrow> UserProgress" where
  "social_share_progress ev progress =
     progress\<lparr> social_shares := social_shares progress + 1,
               total_engagement := total_engagement progress
                  + or_zero (case ev of None \<Rightarrow> None | Some d \<Rightarrow> engagement d) \<rparr>"

definition social_share_row :: "EventData option \<Rightarrow> UserProgress \<Rightarrow> UserProgress" where
  "social_share_row ev progress =
     (social_share_progress ev progress)
       \<lparr> voice_state := getVoiceState (social_share_progress ev progress) \<rparr>"

text \<open>Get or create the progress row; \<open>None\<close> is a \<^verbatim>\<open>throw\<close>.\<close>

definition load_progress ::
  "Env \<Rightarrow> Database \<Rightarrow> string \<Rightarrow> string \<Rightarrow> (Database \<times> UserProgress) option" where
  "load_progress env db uid wallet =
     (if progress_select_error env then None
      else case user_badge_progress db uid of
             Some row \<Rightarrow> Some (db, row)
           | None \<Rightarrow>
               if progress_create_error env then None
               else Some (db\<lparr> user_badge_progress :=
                                (user_badge_progress db)(uid \<mapsto> new_progress uid wallet) \<rparr>,
                          new_progress uid wallet))"

text \<open>The \<^verbatim>\<open>switch (action)\<close>: the row after the update and the refreshed progress object;
  \<open>None\<close> is \<^verbatim>\<open>throw updateError\<close>. Any other action falls through the switch.\<close>

definition apply_event ::
  "Env \<Rightarrow> Request \<Rightarrow> UserProgress \<Rightarrow> (UserProgress \<times> UserProgress) option" where
  "apply_event env req progress =
     (if action req = ''transaction'' then
        (if progress_update_error env then None
         else Some (transaction_progress (today env) (yesterdayStr env) (eventData req) progress,
                    transaction_progress (today env) (yesterdayStr env) (eventData req) progress))
      else if action req = ''social_share'' then
        (if progress_update_error env then None
         else Some (social_share_row (eventData req) progress,
                    social_share_progress (eventData req) progress))
      else Some (progress, progress))"

text \<open>The unlock row the loop inserts for a badge (\<^verbatim>\<open>eventData?.txHash || null\<close>).\<close>

definition unlock_row :: "Request \<Rightarrow> string \<Rightarrow> string \<Rightarrow> Badge \<Rightarrow> BadgeUnlock" where
  "unlock_row req uid wallet badge =
     \<lparr> ul_user_id = uid, ul_wallet_address = wallet, ul_badge_id = badge_id badge,
       trigger_event = action req,
       trigger_tx_hash = (case eventData req of
                            None \<Rightarrow> None
                          | Some d \<Rightarrow> if truthy_string (txHash d) then txHash d else None) \<rparr>"

text \<open>The three messages of the service. The error object that \<^verbatim>\<open>console.error\<close>
  prints after its message is left out.\<close>

definition processing_line :: "string \<Rightarrow> string \<Rightarrow> string" where
  "processing_line act wallet = ''[badge-service] Processing '' @ act @ '' for wallet '' @ wallet"

definition unlocked_line :: "string \<Rightarrow> Badge \<Rightarrow> string" where
  "unlocked_line wallet badge =
     ''[badge-service] Unlocked badge: '' @ badge_name badge @ '' for '' @ wallet"

definition error_line :: string where
  "error_line = ''[badge-service] Error:''"

text \<open>The loop \<^verbatim>\<open>for (const badge of badges || [])\<close>, carrying the rows inserted so far,
  \<^verbatim>\<open>newUnlocks\<close> and the lines logged. \<^verbatim>\<open>unlockedBadgeIds\<close> is not changed by the
  loop. An insert that reports an error has no \<^verbatim>\<open>else\<close> branch in the source.\<close>

fun unlock_loop ::
  "Env \<Rightarrow> Request \<Rightarrow> string \<Rightarrow> string \<Rightarrow> string set \<Rightarrow> UserProgress \<Rightarrow> Badge list
     \<Rightarrow> BadgeUnlock list \<times> string list \<times> string list
     \<Rightarrow> BadgeUnlock list \<times> string list \<times> string list" where
  "unlock_loop env req uid wallet unlockedBadgeIds progress [] (inserted, new, logged) =
     (inserted, new, logged)"
| "unlock_loop env req uid wallet unlockedBadgeIds progress (badge # rest) (inserted, new, logged) =
     (if badge_id badge \<in> unlockedBadgeIds then
        unlock_loop env req uid wallet unlockedBadgeIds progress rest (inserted, new, logged)
      else if checkBadgeCriteria (now env) badge progress then
        (if \<not> unlock_error env badge then
           unlock_loop env req uid wallet unlockedBadgeIds progress rest
             (inserted @ [unlock_row req uid wallet badge], new @ [slug badge],
              logged @ [unlocked_line wallet badge])
         else
           unlock_loop env req uid wallet unlockedBadgeIds progress rest (inserted, new, logged))
      else unlock_loop env req uid wallet unlockedBadgeIds progress rest (inserted, new, logged))"

text \<open>\<^verbatim>\<open>b.progression_order || 0\<close>, and the identity ladder: the identity-layer
  progression badges of the loaded catalog, sorted by descending order key.
  \<^verbatim>\<open>Array.prototype.sort\<close> is stable, and so is \<^const>\<open>sort_key\<close>.\<close>

definition order_key :: "Badge \<Rightarrow> int" where
  "order_key b = or_zero (progression_order b)"

definition identityBadges :: "Badge list \<Rightarrow> Badge list" where
  "identityBadges bs =
     sort_key (\<lambda>b. - order_key b) (filter (\<lambda>b. layer b = ''identity'' \<and> is_progression b) bs)"

text \<open>The first badge of the ladder that is unlocked, old or new; \<open>None\<close> is \<^verbatim>\<open>null\<close>.\<close>

definition identity_badge :: "Badge list \<Rightarrow> string set \<Rightarrow> string list \<Rightarrow> string option" where
  "identity_badge bs unlockedBadgeIds new =
     map_option slug
       (find (\<lambda>badge. badge_id badge \<in> unlockedBadgeIds \<or> slug badge \<in> set new)
          (identityBadges bs))"

text \<open>The catalog query (\<^verbatim>\<open>.eq('is_active', true)\<close>) and the set of badge ids of the
  user's unlock rows.\<close>

definition active_badges :: "Database \<Rightarrow> Badge list" where
  "active_badges db = filter is_active (badges db)"

definition unlocked_ids :: "Database \<Rightarrow> string \<Rightarrow> string set" where
  "unlocked_ids db uid = set (map ul_badge_id (filter (\<lambda>u. ul_user_id u = uid) (badge_unlocks db)))"

text \<open>Everything after the switch: catalog and unlock loading, the unlock loop, the score
  and identity badge, their update on the row, and the response. A \<^verbatim>\<open>throw\<close> ends in
  the \<^verbatim>\<open>catch\<close>, which logs and answers 500. The final update writes the row unless
  the call reports an error; the response is the same in both cases.\<close>

definition evaluate ::
  "Env \<Rightarrow> Database \<Rightarrow> Request \<Rightarrow> string \<Rightarrow> string \<Rightarrow> UserProgress \<Rightarrow> UserProgress
     \<Rightarrow> Outcome" where
  "evaluate env db req uid wallet row progress =
     (if badges_error env then
        \<lparr> tables = db, response = Internal_Error, console = [error_line] \<rparr>
      else if unlocks_error env then
        \<lparr> tables = db, response = Internal_Error, console = [error_line] \<rparr>
      else
        (let unlockedBadgeIds = unlocked_ids db uid;
             result = unlock_loop env req uid wallet unlockedBadgeIds progress
                        (active_badges db) ([], [], []);
             new = fst (snd result);
             score = calculateIntentScore progress;
             current = identity_badge (active_badges db) unlockedBadgeIds new
         in \<lparr> tables = db\<lparr> user_badge_progress :=
                        (if score_update_error env then user_badge_progress db
                         else (user_badge_progress db)
                                (uid \<mapsto> row\<lparr> intent_score := score,
                                              current_identity_badge := current \<rparr>)),
                      badge_unlocks := badge_unlocks db @ fst result \<rparr>,
              response = Success \<lparr> newUnlocks = new, intentScore = score,
                           currentIdentityBadge = current,
                           totalTransactions = total_transactions progress,
                           uniqueProtocols = unique_protocols progress,
                           consecutiveDays = consecutive_days progress \<rparr>,
              console = snd (snd result) \<rparr>))"

text \<open>The body of the \<^verbatim>\<open>try\<close> after the validation and its first log line.\<close>

definition process :: "Env \<Rightarrow> Database \<Rightarrow> Request \<Rightarrow> string \<Rightarrow> string \<Rightarrow> Outcome" where
  "process env db req uid wallet =
     (case load_progress env db uid wallet of
        None \<Rightarrow> \<lparr> tables = db, response = Internal_Error, console = [error_line] \<rparr>
      | Some (db1, progress0) \<Rightarrow>
          (case apply_event env req progress0 of
             None \<Rightarrow> \<lparr> tables = db1, response = Internal_Error, console = [error_line] \<rparr>
           | Some (row, progress) \<Rightarrow>
               evaluate env
                 (db1\<lparr> user_badge_progress := (user_badge_progress db1)(uid \<mapsto> row) \<rparr>)
                 req uid wallet row progress))"

text \<open>The handler for a \<^verbatim>\<open>POST\<close> request with a JSON body (the \<^verbatim>\<open>OPTIONS\<close> preflight
  and a body that does not parse are outside the model).\<close>

definition handler :: "Env \<Rightarrow> Database \<Rightarrow> Request \<Rightarrow> Outcome" where
  "handler env db req =
     (case (userId req, walletAddress req) of
        (Some uid, Some wallet) \<Rightarrow>
          if uid = [] \<or> wallet = [] then
            \<lparr> tables = db, response = Bad_Request, console = [] \<rparr>
          else
            (let outcome = process env db req uid wallet
             in outcome\<lparr> console := processing_line (action req) wallet # console outcome \<rparr>)
      | _ \<Rightarrow> \<lparr> tables = db, response = Bad_Request, console = [] \<rparr>)"

text \<open>A sequence of events, each with the environment it meets.\<close>

fun run :: "Database \<Rightarrow> (Env \<times> Request) list \<Rightarrow> Database" where
  "run db [] = db"
| "run db ((env, req) # rest) = run (tables (handler env db req)) rest"

section \<open>The identity rule in the words of the specification\<close>

text \<open>The identity-layer progression badges of a catalog that the user holds: the id is in
  the unlock set loaded before the loop, or the slug is among those unlocked in this call.\<close>

definition unlocked_identity_badges :: "Badge list \<Rightarrow> string set \<Rightarrow> string list \<Rightarrow> Badge list" where
  "unlocked_identity_badges bs ids new =
     filter (\<lambda>b. layer b = ''identity'' \<and> is_progression b
                  \<and> (badge_id b \<in> ids \<or> slug b \<in> set new)) bs"

text \<open>\<open>res\<close> is the slug of one of them of the highest order, or none if there is none.\<close>

definition highest_unlocked_identity ::
  "Badge list \<Rightarrow> string set \<Rightarrow> string list \<Rightarrow> string option \<Rightarrow> bool" where
  "highest_unlocked_identity bs ids new res =
     (case res of
        None \<Rightarrow> unlocked_identity_badges bs ids new = []
      | Some s \<Rightarrow>
          (\<exists>b \<in> set (unlocked_identity_badges bs ids new).
             slug b = s
             \<and> (\<forall>b' \<in> set (unlocked_identity_badges bs ids new). order_key b' \<le> order_key b)))"

section \<open>The seed catalog and the scenarios\<close>

text \<open>The badge rows the migration inserts (ids are generated by the database; the two
  event windows start at the time \<open>t0\<close> of the migration and last 24 hours and 7 days).\<close>

definition newcomer :: Badge where
  "newcomer = (badge_row ''id-newcomer'' ''newcomer'' ''Newcomer'' ''identity''
                 (no_criteria\<lparr> min_transactions := Some 1 \<rparr>))
                \<lparr> is_progression := True, progression_order := Some 1 \<rparr>"

definition active :: Badge where
  "active = (badge_row ''id-active'' ''active'' ''Active'' ''identity''
               (no_criteria\<lparr> min_consecutive_days := Some 7, min_protocols := Some 3 \<rparr>))
              \<lparr> rarity := ''rare'', is_progression := True, progression_order := Some 2 \<rparr>"

definition legend :: Badge where
  "legend = (badge_row ''id-legend'' ''legend'' ''Legend'' ''identity''
               (no_criteria\<lparr> min_consecutive_days := Some 30, min_protocols := Some 10,
                             min_transactions := Some 100 \<rparr>))
              \<lparr> rarity := ''legendary'', is_progression := True, progression_order := Some 3 \<rparr>"

definition on_chain :: Badge where
  "on_chain = badge_row ''id-on-chain'' ''on-chain'' ''On-Chain Verified'' ''proof''
                (no_criteria\<lparr> verified_on_chain := Some True \<rparr>)"

definition multi_protocol :: Badge where
  "multi_protocol = (badge_row ''id-multi-protocol'' ''multi-protocol'' ''Multi-Protocol User''
                       ''proof'' (no_criteria\<lparr> min_protocols := Some 5 \<rparr>))\<lparr> rarity := ''rare'' \<rparr>"

definition consistent :: Badge where
  "consistent = (badge_row ''id-consistent'' ''consistent'' ''Consistent Contributor'' ''proof''
                   (no_criteria\<lparr> min_consecutive_days := Some 14 \<rparr>))\<lparr> rarity := ''epic'' \<rparr>"

definition genesis_og :: "timestamp \<Rightarrow> Badge" where
  "genesis_og t0 = (badge_row ''id-genesis-og'' ''genesis-og'' ''Genesis Member'' ''event''
                      (no_criteria\<lparr> first_24h_launch := Some True \<rparr>))
                     \<lparr> rarity := ''legendary'', event_window_start := Some t0,
                       event_window_end := Some (t0 + 86400000) \<rparr>"

definition arcflow_witness :: "timestamp \<Rightarrow> Badge" where
  "arcflow_witness t0 =
     (badge_row ''id-arcflow-witness'' ''arcflow-witness'' ''ArcFlow Witness'' ''event''
        (no_criteria\<lparr> protocol := Some ''arcflow'', within_days := Some 7 \<rparr>))
       \<lparr> rarity := ''rare'', event_window_start := Some t0,
         event_window_end := Some (t0 + 604800000) \<rparr>"

definition arc_mainnet :: Badge where
  "arc_mainnet = (badge_row ''id-arc-mainnet'' ''arc-mainnet'' ''Arc Mainnet Pioneer'' ''event''
                    (no_criteria\<lparr> mainnet_first_24h := Some True \<rparr>))\<lparr> rarity := ''legendary'' \<rparr>"

definition voice :: Badge where
  "voice = (badge_row ''id-voice'' ''voice'' ''Voice'' ''social''
              (no_criteria\<lparr> state_1 := Some 1, state_2 := Some 5, state_3 := Some (10, 100) \<rparr>))
             \<lparr> rarity := ''uncommon'' \<rparr>"

definition seed_badges :: "timestamp \<Rightarrow> Badge list" where
  "seed_badges t0 =
     [newcomer, active, legend, on_chain, multi_protocol, consistent, genesis_og t0,
      arcflow_witness t0, arc_mainnet, voice]"

text \<open>A request handled on UTC at the instant \<open>t\<close>, all clock reads giving \<open>t\<close>, with
  every datastore call succeeding.\<close>

definition reliable :: "timestamp \<Rightarrow> Env" where
  "reliable t =
     \<lparr> now = t, today = utc_date t, yesterdayStr = utc_date t - 1,
       progress_select_error = False, progress_create_error = False,
       progress_update_error = False, badges_error = False, unlocks_error = False,
       unlock_error = (\<lambda>badge. False), score_update_error = False \<rparr>"

text \<open>The same, except that the insert of the unlock row of the on-chain badge reports an
  error.\<close>

definition on_chain_fails :: "timestamp \<Rightarrow> Env" where
  "on_chain_fails t = (reliable t)\<lparr> unlock_error := (\<lambda>badge. slug badge = ''on-chain'') \<rparr>"

text \<open>The same as \<open>reliable\<close>, except that the final update of the score and identity
  badge reports an error.\<close>

definition write_fails :: "timestamp \<Rightarrow> Env" where
  "write_fails t = (reliable t)\<lparr> score_update_error := True \<rparr>"

text \<open>A transaction handled on UTC around the midnight that ends day 1: the first clock
  read falls on 23:59:59.999 of day 1, the second and all later ones on 00:00:00.000 of
  day 2. Then \<open>today\<close> is day 1, and \<open>yesterdayStr\<close>, the day before day 2, is day 1
  too.\<close>

definition across_midnight :: Env where
  "across_midnight = (reliable 172800000)\<lparr> today := utc_date 172799999 \<rparr>"

text \<open>A database without users, and one with a user who was last active on day 0, has a
  streak of six days on three protocols and holds the newcomer badge.\<close>

definition fresh_db :: Database where
  "fresh_db = \<lparr> user_badge_progress = Map.empty, badges = seed_badges 0, badge_unlocks = [] \<rparr>"

definition regular_user :: UserProgress where
  "regular_user =
     (new_progress ''u1'' ''0xabc'')
       \<lparr> total_transactions := 50, unique_protocols := 3,
         protocols_interacted := [''arcflow'', ''arcswap'', ''arclend''],
         consecutive_days := 6, last_active_date := Some 0, max_consecutive_days := 6 \<rparr>"

definition regular_db :: Database where
  "regular_db =
     \<lparr> user_badge_progress = [''u1'' \<mapsto> regular_user],
       badges = seed_badges 0,
       badge_unlocks = [\<lparr> ul_user_id = ''u1'', ul_wallet_address = ''0xabc'',
                          ul_badge_id = ''id-newcomer'', trigger_event = ''transaction'',
                          trigger_tx_hash = None \<rparr>] \<rparr>"

text \<open>The same user with 4 shares and an engagement of 60.\<close>

definition sharing_db :: Database where
  "sharing_db = regular_db\<lparr> user_badge_progress :=
                   [''u1'' \<mapsto> regular_user\<lparr> social_shares := 4, total_engagement := 60 \<rparr>] \<rparr>"

text \<open>The same user after the legend tier, which the user also holds, was deactivated in
  a catalog of the three identity tiers.\<close>

definition retired_db :: Database where
  "retired_db =
     regular_db\<lparr> badges := [newcomer, active, legend\<lparr> is_active := False \<rparr>],
                 badge_unlocks := badge_unlocks regular_db
                   @ [\<lparr> ul_user_id = ''u1'', ul_wallet_address = ''0xabc'',
                        ul_badge_id = ''id-legend'', trigger_event = ''transaction'',
                        trigger_tx_hash = None \<rparr>] \<rparr>"

text \<open>A user whose row holds a negative transaction counter. The column is a signed
  \<^verbatim>\<open>INTEGER\<close>, and the policy \<^verbatim>\<open>progress_owner_update\<close> of the migration lets the owner
  update the row.\<close>

definition negative_user :: UserProgress where
  "negative_user = (new_progress ''u1'' ''0xabc'')\<lparr> total_transactions := - 50 \<rparr>"

definition negative_db :: Database where
  "negative_db =
     \<lparr> user_badge_progress = [''u1'' \<mapsto> negative_user], badges = seed_badges 0,
       badge_unlocks = [] \<rparr>"

text \<open>The requests of the scenarios: a transaction on the protocol arcflow, a share with
  engagement 50, and an event of the kind \<^verbatim>\<open>daily_check\<close>, which the switch does not
  handle.\<close>

definition daily_check_request :: Request where
  "daily_check_request =
     \<lparr> action = ''daily_check'', userId = Some ''u1'', walletAddress = Some ''0xabc'',
       eventData = None \<rparr>"

definition transaction_request :: Request where
  "transaction_request =
     \<lparr> action = ''transaction'', userId = Some ''u1'', walletAddress = Some ''0xabc'',
       eventData = Some \<lparr> ev_protocol = Some ''arcflow'', txHash = Some ''0x01'',
                          engagement = None \<rparr> \<rparr>"

definition share_request :: Request where
  "share_request =
     \<lparr> action = ''social_share'', userId = Some ''u1'', walletAddress = Some ''0xabc'',
       eventData = Some \<lparr> ev_protocol = None, txHash = None, engagement = Some 50 \<rparr> \<rparr>"

section \<open>Lemmas about the handler\<close>

lemma unlock_loop_filter:
  "unlock_loop env req uid wallet ids p bs (inserted, new, logged) =
     (inserted @ map (unlock_row req uid wallet)
        (filter (\<lambda>b. badge_id b \<notin> ids \<and> checkBadgeCriteria (now env) b p \<and> \<not> unlock_error env b) bs),
      new @ map slug
        (filter (\<lambda>b. badge_id b \<notin> ids \<and> checkBadgeCriteria (now env) b p \<and> \<not> unlock_error env b) bs),
      logged @ map (unlocked_line wallet)
        (filter (\<lambda>b. badge_id b \<notin> ids \<and> checkBadgeCriteria (now env) b p \<and> \<not> unlock_error env b) bs))"
  by (induction bs arbitrary: inserted new logged) simp_all

lemma load_progress_tables:
  assumes "load_progress env db uid wallet = Some (db1, p0)"
  shows "badges db1 = badges db" and "badge_unlocks db1 = badge_unlocks db"
    and "user_badge_progress db1 uid = Some p0"
    and "u \<noteq> uid \<Longrightarrow> user_badge_progress db1 u = user_badge_progress db u"
  using assms by (auto simp add: load_progress_def split: if_splits option.splits)

lemma load_progress_row:
  assumes "load_progress env db uid wallet = Some (db1, p0)"
    and "user_badge_progress db uid = Some p"
  shows "p0 = p"
  using assms by (auto simp add: load_progress_def split: if_splits option.splits)

lemma load_progress_catalog:
  assumes "load_progress env db uid wallet = Some (db1, p0)"
  shows "active_badges db1 = active_badges db" and "unlocked_ids db1 u = unlocked_ids db u"
  using load_progress_tables(1,2) [OF assms] by (simp_all add: active_badges_def unlocked_ids_def)

lemma stored_tables:
  "active_badges (db\<lparr> user_badge_progress := t \<rparr>) = active_badges db"
  "unlocked_ids (db\<lparr> user_badge_progress := t \<rparr>) uid = unlocked_ids db uid"
  by (simp_all add: active_badges_def unlocked_ids_def)

lemma handler_stages:
  assumes "userId req = Some uid" and "walletAddress req = Some wallet"
    and "uid \<noteq> []" and "wallet \<noteq> []"
    and "load_progress env db uid wallet = Some (db1, progress0)"
    and "apply_event env req progress0 = Some (row, progress)"
  shows "handler env db req =
           (evaluate env (db1\<lparr> user_badge_progress := (user_badge_progress db1)(uid \<mapsto> row) \<rparr>)
              req uid wallet row progress)
           \<lparr> console := processing_line (action req) wallet
                # console (evaluate env
                    (db1\<lparr> user_badge_progress := (user_badge_progress db1)(uid \<mapsto> row) \<rparr>)
                    req uid wallet row progress) \<rparr>"
  using assms by (simp add: handler_def process_def Let_def)

lemma evaluate_success:
  assumes "\<not> badges_error env" and "\<not> unlocks_error env"
  shows "evaluate env db req uid wallet row progress =
    \<lparr> tables = db\<lparr> user_badge_progress :=
            (if score_update_error env then user_badge_progress db
             else (user_badge_progress db)
               (uid \<mapsto> row\<lparr> intent_score := calculateIntentScore progress,
                          current_identity_badge :=
                            identity_badge (active_badges db) (unlocked_ids db uid)
                              (map slug (filter (\<lambda>b. badge_id b \<notin> unlocked_ids db uid
                                 \<and> checkBadgeCriteria (now env) b progress \<and> \<not> unlock_error env b)
                                 (active_badges db))) \<rparr>)),
         badge_unlocks := badge_unlocks db @ map (unlock_row req uid wallet)
            (filter (\<lambda>b. badge_id b \<notin> unlocked_ids db uid
               \<and> checkBadgeCriteria (now env) b progress \<and> \<not> unlock_error env b)
               (active_badges db)) \<rparr>,
      response = Success \<lparr> newUnlocks = map slug (filter (\<lambda>b. badge_id b \<notin> unlocked_ids db uid
                  \<and> checkBadgeCriteria (now env) b progress \<and> \<not> unlock_error env b)
                  (active_badges db)),
               intentScore = calculateIntentScore progress,
               currentIdentityBadge =
                 identity_badge (active_badges db) (unlocked_ids db uid)
                   (map slug (filter (\<lambda>b. badge_id b \<notin> unlocked_ids db uid
                      \<and> checkBadgeCriteria (now env) b progress \<and> \<not> unlock_error env b)
                      (active_badges db))),
               totalTransactions = total_transactions progress,
               uniqueProtocols = unique_protocols progress,
               consecutiveDays = consecutive_days progress \<rparr>,
      console = map (unlocked_line wallet) (filter (\<lambda>b. badge_id b \<notin> unlocked_ids db uid
                  \<and> checkBadgeCriteria (now env) b progress \<and> \<not> unlock_error env b)
                  (active_badges db)) \<rparr>"
  using assms by (simp add: evaluate_def Let_def unlock_loop_filter)

lemma find_sorted_least:
  assumes "sorted (map f ys)" and "find P ys = Some b"
  shows "\<forall>y \<in> set ys. P y \<longrightarrow> f b \<le> f y"
  using assms by (induction ys) (auto split: if_splits)

lemma find_Some_mem: "find P ys = Some b \<Longrightarrow> b \<in> set ys \<and> P b"
  by (induction ys) (auto split: if_splits)

lemma identity_badge_highest:
  "highest_unlocked_identity bs ids new (identity_badge bs ids new)"
proof (cases "find (\<lambda>badge. badge_id badge \<in> ids \<or> slug badge \<in> set new) (identityBadges bs)")
  case None
  then have "\<forall>b \<in> set (identityBadges bs). \<not> (badge_id b \<in> ids \<or> slug b \<in> set new)"
    by (simp add: find_None_iff)
  then have "unlocked_identity_badges bs ids new = []"
    by (auto simp add: unlocked_identity_badges_def identityBadges_def filter_empty_conv)
  with None show ?thesis
    by (simp add: highest_unlocked_identity_def identity_badge_def)
next
  case (Some b)
  have mem: "b \<in> set (identityBadges bs)" and P: "badge_id b \<in> ids \<or> slug b \<in> set new"
    using find_Some_mem [OF Some] by simp_all
  have "sorted (map (\<lambda>b. - order_key b) (identityBadges bs))"
    by (simp add: identityBadges_def)
  from find_sorted_least [OF this Some]
  have least: "\<forall>y \<in> set (identityBadges bs).
                 (badge_id y \<in> ids \<or> slug y \<in> set new) \<longrightarrow> order_key y \<le> order_key b"
    by simp
  have "b \<in> set (unlocked_identity_badges bs ids new)"
    using mem P by (auto simp add: unlocked_identity_badges_def identityBadges_def)
  moreover have "\<forall>b' \<in> set (unlocked_identity_badges bs ids new). order_key b' \<le> order_key b"
    using least by (auto simp add: unlocked_identity_badges_def identityBadges_def)
  ultimately show ?thesis using Some
    by (auto simp add: highest_unlocked_identity_def identity_badge_def)
qed

lemma apply_event_max:
  assumes "apply_event env req p0 = Some (row, progress)"
  shows "max_consecutive_days p0 \<le> max_consecutive_days row"
  using assms
  by (auto simp add: apply_event_def transaction_progress_def social_share_row_def
        social_share_progress_def Let_def split: if_splits)

text \<open>After the switch, a row changes in its score and identity badge at most.\<close>

lemma evaluate_row:
  assumes "user_badge_progress db u = Some q" and "u = uid \<Longrightarrow> q = row"
  shows "\<exists>sc cur. user_badge_progress (tables (evaluate env db req uid wallet row progress)) u
                     = Some (q\<lparr> intent_score := sc, current_identity_badge := cur \<rparr>)"
proof (cases "badges_error env \<or> unlocks_error env \<or> score_update_error env \<or> u \<noteq> uid")
  case True
  then have "user_badge_progress (tables (evaluate env db req uid wallet row progress)) u
               = Some q"
    using assms(1) by (auto simp add: evaluate_def Let_def)
  then have "user_badge_progress (tables (evaluate env db req uid wallet row progress)) u
               = Some (q\<lparr> intent_score := intent_score q,
                          current_identity_badge := current_identity_badge q \<rparr>)"
    by simp
  then show ?thesis by blast
next
  case False
  with assms(2) show ?thesis by (auto simp add: evaluate_def Let_def)
qed

lemma evaluate_max:
  assumes "user_badge_progress db u = Some q" and "u = uid \<Longrightarrow> q = row"
  shows "\<exists>q'. user_badge_progress (tables (evaluate env db req uid wallet row progress)) u = Some q'
            \<and> max_consecutive_days q' = max_consecutive_days q"
proof -
  from evaluate_row [OF assms] obtain sc cur where
    "user_badge_progress (tables (evaluate env db req uid wallet row progress)) u
       = Some (q\<lparr> intent_score := sc, current_identity_badge := cur \<rparr>)"
    by blast
  then show ?thesis by simp
qed

text \<open>The row the handler leaves for the user of a request that passed the switch.\<close>

lemma handler_row:
  assumes "userId req = Some uid" and "walletAddress req = Some wallet"
    and "uid \<noteq> []" and "wallet \<noteq> []"
    and "load_progress env db uid wallet = Some (db1, progress0)"
    and "apply_event env req progress0 = Some (row, progress)"
  shows "\<exists>sc cur. user_badge_progress (tables (handler env db req)) uid
                     = Some (row\<lparr> intent_score := sc, current_identity_badge := cur \<rparr>)"
proof -
  let ?db2 = "db1\<lparr> user_badge_progress := (user_badge_progress db1)(uid \<mapsto> row) \<rparr>"
  have "user_badge_progress ?db2 uid = Some row" by simp
  from evaluate_row [OF this, of uid row env req wallet progress]
  show ?thesis by (simp add: handler_stages [OF assms])
qed

lemma handler_passes_switch:
  assumes "\<not> progress_select_error env" and "\<not> progress_create_error env"
    and "\<not> progress_update_error env"
  shows "\<exists>db1 progress0 row progress.
           load_progress env db uid wallet = Some (db1, progress0)
           \<and> apply_event env req progress0 = Some (row, progress)"
  using assms by (auto simp add: load_progress_def apply_event_def split: option.splits)

lemma handler_max:
  assumes "user_badge_progress db u = Some p"
  shows "\<exists>p'. user_badge_progress (tables (handler env db req)) u = Some p'
            \<and> max_consecutive_days p \<le> max_consecutive_days p'"
proof (cases "\<exists>uid wallet. userId req = Some uid \<and> walletAddress req = Some wallet
                 \<and> uid \<noteq> [] \<and> wallet \<noteq> []")
  case False
  then have "tables (handler env db req) = db"
    by (auto simp add: handler_def split: option.splits)
  with assms show ?thesis by simp
next
  case True
  then obtain uid wallet where req: "userId req = Some uid" "walletAddress req = Some wallet"
    "uid \<noteq> []" "wallet \<noteq> []" by blast
  show ?thesis
  proof (cases "load_progress env db uid wallet")
    case None
    with req have "tables (handler env db req) = db"
      by (simp add: handler_def process_def Let_def)
    with assms show ?thesis by simp
  next
    case (Some a)
    then obtain db1 p0 where load: "load_progress env db uid wallet = Some (db1, p0)"
      by (cases a) simp
    have row1: "user_badge_progress db1 u = Some p"
    proof (cases "u = uid")
      case True
      with load_progress_row [OF load] assms load_progress_tables(3) [OF load]
      show ?thesis by simp
    next
      case False
      with load_progress_tables(4) [OF load] assms show ?thesis by simp
    qed
    have p0: "u = uid \<Longrightarrow> p0 = p"
      using load_progress_tables(3) [OF load] row1 by simp
    show ?thesis
    proof (cases "apply_event env req p0")
      case None
      with req load have "tables (handler env db req) = db1"
        by (simp add: handler_def process_def Let_def)
      with row1 show ?thesis by simp
    next
      case (Some c)
      then obtain row progress where ev: "apply_event env req p0 = Some (row, progress)"
        by (cases c) simp
      let ?db2 = "db1\<lparr> user_badge_progress := (user_badge_progress db1)(uid \<mapsto> row) \<rparr>"
      let ?q = "if u = uid then row else p"
      have "user_badge_progress ?db2 u = Some ?q" using row1 by simp
      moreover have "u = uid \<Longrightarrow> ?q = row" by simp
      ultimately obtain q' where
        q': "user_badge_progress (tables (evaluate env ?db2 req uid wallet row progress)) u = Some q'"
          "max_consecutive_days q' = max_consecutive_days ?q"
        using evaluate_max [of ?db2 u ?q uid row env req wallet progress] by blast
      have "max_consecutive_days p \<le> max_consecutive_days ?q"
        using apply_event_max [OF ev] p0 by (cases "u = uid") simp_all
      with q' show ?thesis
        by (simp add: handler_stages [OF req load ev])
    qed
  qed
qed

text \<open>The rows the two cases of the switch leave for the user.\<close>

lemma handler_transaction_row:
  assumes "action req = ''transaction''"
    and "userId req = Some uid" and "walletAddress req = Some wallet"
    and "uid \<noteq> []" and "wallet \<noteq> []"
    and "load_progress env db uid wallet = Some (db1, p)"
    and "\<not> progress_update_error env"
  shows "\<exists>sc cur. user_badge_progress (tables (handler env db req)) uid
           = Some ((transaction_progress (today env) (yesterdayStr env) (eventData req) p)
                     \<lparr> intent_score := sc, current_identity_badge := cur \<rparr>)"
proof -
  have "apply_event env req p
          = Some (transaction_progress (today env) (yesterdayStr env) (eventData req) p,
                  transaction_progress (today env) (yesterdayStr env) (eventData req) p)"
    using assms(1,7) by (simp add: apply_event_def)
  from handler_row [OF assms(2-6) this] show ?thesis .
qed

lemma handler_share_row:
  assumes "action req = ''social_share''"
    and "userId req = Some uid" and "walletAddress req = Some wallet"
    and "uid \<noteq> []" and "wallet \<noteq> []"
    and "load_progress env db uid wallet = Some (db1, p)"
    and "\<not> progress_update_error env"
  shows "\<exists>sc cur. user_badge_progress (tables (handler env db req)) uid
           = Some ((social_share_row (eventData req) p)
                     \<lparr> intent_score := sc, current_identity_badge := cur \<rparr>)"
proof -
  have "apply_event env req p
          = Some (social_share_row (eventData req) p, social_share_progress (eventData req) p)"
    using assms(1,7) by (simp add: apply_event_def)
  from handler_row [OF assms(2-6) this] show ?thesis .
qed

text \<open>When the second clock read of a transaction gives the day before \<open>today\<close>, the
  stored streak is unchanged for a last active date of today, one more for the day before,
  and 1 otherwise.\<close>

lemma transaction_streak_same_day:
  assumes "action req = ''transaction''"
    and "userId req = Some uid" and "walletAddress req = Some wallet"
    and "uid \<noteq> []" and "wallet \<noteq> []"
    and "load_progress env db uid wallet = Some (db1, p)"
    and "\<not> progress_update_error env"
    and "yesterdayStr env = today env - 1"
  shows "\<exists>p'. user_badge_progress (tables (handler env db req)) uid = Some p'
           \<and> consecutive_days p' =
               (if last_active_date p = Some (today env) then consecutive_days p
                else if last_active_date p = Some (today env - 1) then consecutive_days p + 1
                else 1)
           \<and> last_active_date p' = Some (today env)
           \<and> total_transactions p' = total_transactions p + 1"
proof -
  from handler_transaction_row [OF assms(1-7)] obtain sc cur where
    "user_badge_progress (tables (handler env db req)) uid
       = Some ((transaction_progress (today env) (yesterdayStr env) (eventData req) p)
                 \<lparr> intent_score := sc, current_identity_badge := cur \<rparr>)"
    by blast
  with assms(8) show ?thesis
    by (simp add: transaction_progress_def streak_def Let_def)
qed

text \<open>The handler on the scenarios, evaluated.\<close>

lemma scenario_request:
  "userId transaction_request = Some ''u1''" "walletAddress transaction_request = Some ''0xabc''"
  "''u1'' \<noteq> []" "''0xabc'' \<noteq> []"
  by (simp_all add: transaction_request_def)

lemma regular_load:
  "load_progress (reliable t) regular_db ''u1'' ''0xabc'' = Some (regular_db, regular_user)"
  "load_progress across_midnight regular_db ''u1'' ''0xabc'' = Some (regular_db, regular_user)"
  by (simp_all add: load_progress_def reliable_def across_midnight_def regular_db_def)

lemma scenario_flags:
  "\<not> badges_error (on_chain_fails 90000000)" "\<not> unlocks_error (on_chain_fails 90000000)"
  by (simp_all add: reliable_def on_chain_fails_def)

lemma fresh_load:
  "load_progress (on_chain_fails 90000000) fresh_db ''u1'' ''0xabc''
     = Some (fresh_db\<lparr> user_badge_progress :=
                (user_badge_progress fresh_db)(''u1'' \<mapsto> new_progress ''u1'' ''0xabc'') \<rparr>,
             new_progress ''u1'' ''0xabc'')"
  by (simp add: load_progress_def on_chain_fails_def reliable_def fresh_db_def)

lemma fresh_event:
  "apply_event (on_chain_fails 90000000) transaction_request (new_progress ''u1'' ''0xabc'')
     = Some (transaction_progress 1 0 (eventData transaction_request)
               (new_progress ''u1'' ''0xabc''),
             transaction_progress 1 0 (eventData transaction_request)
               (new_progress ''u1'' ''0xabc''))"
  by (simp add: apply_event_def on_chain_fails_def reliable_def utc_date_def
        transaction_request_def)

lemma regular_transaction_outcome:
  "response (handler (reliable 90000000) regular_db transaction_request) = Success
     \<lparr> newUnlocks = [''active'', ''on-chain'', ''arcflow-witness'', ''arc-mainnet'', ''voice''],
       intentScore = 209 / 75, currentIdentityBadge = Some ''active'',
       totalTransactions = 51, uniqueProtocols = 3, consecutiveDays = 7 \<rparr>"
  by code_simp

lemma fresh_transaction_unlocks:
  "map slug
     (filter (\<lambda>b. badge_id b \<notin> unlocked_ids fresh_db ''u1''
                   \<and> checkBadgeCriteria (now (on_chain_fails 90000000)) b
                        (transaction_progress 1 0 (eventData transaction_request)
                           (new_progress ''u1'' ''0xabc''))
                   \<and> \<not> unlock_error (on_chain_fails 90000000) b)
        (active_badges fresh_db))
   = [''newcomer'', ''arcflow-witness'', ''arc-mainnet'', ''voice'']"
  by code_simp

lemma late_transaction_streak:
  "map_option (\<lambda>p. (consecutive_days p, max_consecutive_days p))
     (user_badge_progress
        (run regular_db [(reliable 350000000, transaction_request)]) ''u1'')
   = Some (1, 6)"
  by code_simp

section \<open>The intent score\<close>

text \<open>The score never exceeds 10, and it is not negative when no counter is.\<close>

lemma intent_score_bounds:
  "calculateIntentScore p \<le> 10"
  "0 \<le> total_transactions p \<Longrightarrow> 0 \<le> unique_protocols p \<Longrightarrow> 0 \<le> consecutive_days p
     \<Longrightarrow> 0 \<le> max_consecutive_days p \<Longrightarrow> 0 \<le> social_shares p
     \<Longrightarrow> 0 \<le> calculateIntentScore p"
  by (simp_all add: calculateIntentScore_def)

text \<open>
  Claim C4 says that the score lies in the range from 0 to 10 for every progress state,
  as does the comment of the function, \<^verbatim>\<open>Calculate intent score (0-10)\<close>. The function
  caps every contribution and the total from above and nothing from below: on a row whose
  transaction counter is \<open>- 50\<close> and whose other counters are 0 it returns
  \<^verbatim>\<open>Math.min(-50 / 50, 2) = -1\<close>, and the handler answers an event of that user with the
  score \<open>- 1\<close>.
\<close>

theorem intent_score_below_range:
  "calculateIntentScore negative_user = - 1
   \<and> response (handler (reliable 90000000) negative_db daily_check_request) = Success
       \<lparr> newUnlocks = [''arcflow-witness'', ''arc-mainnet'', ''voice''], intentScore = - 1,
         currentIdentityBadge = None, totalTransactions = - 50, uniqueProtocols = 0,
         consecutiveDays = 0 \<rparr>"
  by code_simp

text \<open>
  Claim C5. The score is monotone: if no counter of \<open>q\<close> is below that of \<open>p\<close>, the
  score of \<open>q\<close> is not below the score of \<open>p\<close>. Two states that agree on all counters
  except one, which is greater or equal in the second, are the special case.
\<close>

theorem intent_score_monotone:
  assumes "total_transactions p \<le> total_transactions q"
    and "unique_protocols p \<le> unique_protocols q"
    and "consecutive_days p \<le> consecutive_days q"
    and "max_consecutive_days p \<le> max_consecutive_days q"
    and "social_shares p \<le> social_shares q"
  shows "calculateIntentScore p \<le> calculateIntentScore q"
  using assms unfolding calculateIntentScore_def
  by (intro min.mono add_mono) simp_all

theorem intent_score_monotone_witness:
  "calculateIntentScore regular_user
     \<le> calculateIntentScore (regular_user\<lparr> consecutive_days := 7 \<rparr>)"
  by (rule intent_score_monotone) (simp_all add: regular_user_def new_progress_def)

section \<open>Badge criteria\<close>

text \<open>
  Claim C1. The keys \<^verbatim>\<open>first_24h_launch\<close>, \<^verbatim>\<open>mainnet_first_24h\<close>, \<^verbatim>\<open>protocol\<close>,
  \<^verbatim>\<open>within_days\<close> and \<^verbatim>\<open>state_1\<close>, \<^verbatim>\<open>state_2\<close>, \<^verbatim>\<open>state_3\<close> are never evaluated: the
  result does not depend on them. A badge whose criteria have none of the four evaluated
  keys passes for every progress state as soon as the window check passes, where a window
  is present.
\<close>

theorem unimplemented_keys_unlock:
  assumes "min_transactions (criteria b) = None"
    and "min_consecutive_days (criteria b) = None"
    and "min_protocols (criteria b) = None"
    and "verified_on_chain (criteria b) = None"
    and "\<And>s e. event_window_start b = Some s \<Longrightarrow> event_window_end b = Some e
           \<Longrightarrow> s \<le> t \<and> t \<le> e"
  shows "checkBadgeCriteria t b p
         \<and> checkBadgeCriteria t
             (b\<lparr> criteria := (criteria b)\<lparr> first_24h_launch := k1, mainnet_first_24h := k2,
                    protocol := k3, within_days := k4, state_1 := k5, state_2 := k6,
                    state_3 := k7 \<rparr> \<rparr>) p"
proof -
  have "\<not> outside_window t (event_window_start b) (event_window_end b)"
  proof (cases "event_window_start b")
    case None
    then show ?thesis by simp
  next
    case (Some s)
    show ?thesis
    proof (cases "event_window_end b")
      case None
      with Some show ?thesis by simp
    next
      case (Some e)
      with \<open>event_window_start b = Some s\<close> assms(5) [of s e] show ?thesis by simp
    qed
  qed
  with assms(1-4) show ?thesis by (simp add: checkBadgeCriteria_def Let_def)
qed

theorem unimplemented_keys_unlock_witness:
  "checkBadgeCriteria 3600000 (genesis_og 0) (new_progress ''u1'' ''0xabc'')"
  by (rule unimplemented_keys_unlock [THEN conjunct1])
     (simp_all add: genesis_og_def badge_row_def no_criteria_def)

text \<open>
  Claim C3. A badge with an event window (both bounds present) fails the check whenever
  the current time is before the start or after the end, whatever the criteria and the
  progress; so a badge whose window is over never unlocks.
\<close>

theorem outside_window_never_unlocks:
  assumes "event_window_start b = Some s" and "event_window_end b = Some e"
    and "t < s \<or> e < t"
  shows "\<not> checkBadgeCriteria t b p"
  using assms by (auto simp add: checkBadgeCriteria_def Let_def)

theorem outside_window_never_unlocks_witness:
  "\<not> checkBadgeCriteria 90000000 (genesis_og 0) regular_user"
  by (rule outside_window_never_unlocks [where s = 0 and e = 86400000])
     (simp_all add: genesis_og_def badge_row_def)

text \<open>
  Claim C10. A threshold key that is present with the value 0, and
  \<^verbatim>\<open>verified_on_chain: false\<close>, are treated as if the key were absent, for every badge
  and every progress state.
\<close>

theorem zero_or_false_key_is_absent:
  "checkBadgeCriteria t (b\<lparr> criteria := (criteria b)\<lparr> min_transactions := Some 0 \<rparr> \<rparr>) p
     = checkBadgeCriteria t (b\<lparr> criteria := (criteria b)\<lparr> min_transactions := None \<rparr> \<rparr>) p
   \<and> checkBadgeCriteria t (b\<lparr> criteria := (criteria b)\<lparr> min_consecutive_days := Some 0 \<rparr> \<rparr>) p
     = checkBadgeCriteria t (b\<lparr> criteria := (criteria b)\<lparr> min_consecutive_days := None \<rparr> \<rparr>) p
   \<and> checkBadgeCriteria t (b\<lparr> criteria := (criteria b)\<lparr> min_protocols := Some 0 \<rparr> \<rparr>) p
     = checkBadgeCriteria t (b\<lparr> criteria := (criteria b)\<lparr> min_protocols := None \<rparr> \<rparr>) p
   \<and> checkBadgeCriteria t (b\<lparr> criteria := (criteria b)\<lparr> verified_on_chain := Some False \<rparr> \<rparr>) p
     = checkBadgeCriteria t (b\<lparr> criteria := (criteria b)\<lparr> verified_on_chain := None \<rparr> \<rparr>) p"
  by (simp add: checkBadgeCriteria_def Let_def)

theorem zero_or_false_key_is_absent_witness:
  "checkBadgeCriteria 0 (newcomer\<lparr> criteria := (criteria newcomer)\<lparr> min_transactions := Some 0 \<rparr> \<rparr>)
     (new_progress ''u1'' ''0xabc'')
   \<and> checkBadgeCriteria 0 (on_chain\<lparr> criteria := (criteria on_chain)\<lparr> verified_on_chain := Some False \<rparr> \<rparr>)
     (new_progress ''u1'' ''0xabc'')"
proof -
  have "checkBadgeCriteria 0 (newcomer\<lparr> criteria := (criteria newcomer)\<lparr> min_transactions := None \<rparr> \<rparr>)
          (new_progress ''u1'' ''0xabc'')"
    by (simp add: checkBadgeCriteria_def Let_def newcomer_def badge_row_def no_criteria_def)
  moreover
  have "checkBadgeCriteria 0 (on_chain\<lparr> criteria := (criteria on_chain)\<lparr> verified_on_chain := None \<rparr> \<rparr>)
          (new_progress ''u1'' ''0xabc'')"
    by (simp add: checkBadgeCriteria_def Let_def on_chain_def badge_row_def no_criteria_def)
  ultimately show ?thesis
    using zero_or_false_key_is_absent [of 0 newcomer "new_progress ''u1'' ''0xabc''"]
      zero_or_false_key_is_absent [of 0 on_chain "new_progress ''u1'' ''0xabc''"]
    by blast
qed

section \<open>Events\<close>

text \<open>
  Claim C2 says that a transaction leaves the streak unchanged when the last active date
  is today, adds 1 to it when the last active date is yesterday and resets it to 1
  otherwise, and then stores today as the last active date. The source takes today from
  one clock read and yesterday from a second one. For a transaction handled across the
  midnight that ends day 1, today is day 1 and the date computed for yesterday is day 1
  as well; a user last active on day 0, the day before today, with a streak of 6 is stored
  with a streak of 1, not 7, and day 1 as the last active date.
\<close>

theorem streak_reset_across_midnight:
  "today across_midnight = 1 \<and> yesterdayStr across_midnight = 1
   \<and> last_active_date regular_user = Some 0 \<and> consecutive_days regular_user = 6
   \<and> map_option consecutive_days
        (user_badge_progress (tables (handler across_midnight regular_db transaction_request))
           ''u1'') = Some 1
   \<and> map_option last_active_date
        (user_badge_progress (tables (handler across_midnight regular_db transaction_request))
           ''u1'') = Some (Some 1)"
proof -
  have clock: "today across_midnight = 1" "yesterdayStr across_midnight = 1"
    by (simp_all add: across_midnight_def reliable_def utc_date_def)
  have user: "last_active_date regular_user = Some 0" "consecutive_days regular_user = 6"
    by (simp_all add: regular_user_def)
  have "action transaction_request = ''transaction''"
    and "\<not> progress_update_error across_midnight"
    by (simp_all add: transaction_request_def across_midnight_def reliable_def)
  from handler_transaction_row [OF this(1) scenario_request regular_load(2) this(2)]
  obtain sc cur where
    "user_badge_progress (tables (handler across_midnight regular_db transaction_request)) ''u1''
       = Some ((transaction_progress 1 1 (eventData transaction_request) regular_user)
                 \<lparr> intent_score := sc, current_identity_badge := cur \<rparr>)"
    unfolding clock by blast
  then show ?thesis using clock user
    by (simp add: transaction_progress_def streak_def Let_def)
qed

text \<open>
  Claim C8. A request with the action \<^verbatim>\<open>social_share\<close> whose update is applied
  leaves a row with 1 added to the share count and the engagement of the event added to
  the total engagement, and with the voice state of the new totals: 3 from 10 shares and 100
  engagement, else 2 from 5 shares, else 1 from 1 share, else 0. With 4 shares and 60
  engagement before, a share with engagement 50 gives 5 shares, 110 engagement and voice
  state 2.
\<close>

theorem social_share_update:
  assumes "action req = ''social_share''"
    and "userId req = Some uid" and "walletAddress req = Some wallet"
    and "uid \<noteq> []" and "wallet \<noteq> []"
    and "load_progress env db uid wallet = Some (db1, p)"
    and "\<not> progress_update_error env"
  shows "\<exists>p'. user_badge_progress (tables (handler env db req)) uid = Some p'
           \<and> social_shares p' = social_shares p + 1
           \<and> total_engagement p' = total_engagement p
               + or_zero (case eventData req of None \<Rightarrow> None | Some d \<Rightarrow> engagement d)
           \<and> voice_state p' =
               (if social_shares p' \<ge> 10 \<and> total_engagement p' \<ge> 100 then 3
                else if social_shares p' \<ge> 5 then 2
                else if social_shares p' \<ge> 1 then 1
                else 0)
           \<and> (social_shares p = 4 \<and> total_engagement p = 60
                \<and> (case eventData req of None \<Rightarrow> None | Some d \<Rightarrow> engagement d) = Some 50
               \<longrightarrow> social_shares p' = 5 \<and> total_engagement p' = 110 \<and> voice_state p' = 2)"
proof -
  from handler_share_row [OF assms] obtain sc cur where
    "user_badge_progress (tables (handler env db req)) uid
       = Some ((social_share_row (eventData req) p)
                 \<lparr> intent_score := sc, current_identity_badge := cur \<rparr>)"
    by blast
  then show ?thesis
    by (simp add: social_share_row_def social_share_progress_def getVoiceState_def)
qed

theorem social_share_update_witness:
  "\<exists>p'. user_badge_progress (tables (handler (reliable 90000000) sharing_db share_request)) ''u1''
          = Some p'
      \<and> social_shares p' = 5 \<and> total_engagement p' = 110 \<and> voice_state p' = 2"
proof -
  have req: "action share_request = ''social_share''" "userId share_request = Some ''u1''"
    "walletAddress share_request = Some ''0xabc''" "''u1'' \<noteq> []" "''0xabc'' \<noteq> []"
    by (simp_all add: share_request_def)
  have load: "load_progress (reliable 90000000) sharing_db ''u1'' ''0xabc''
                = Some (sharing_db, regular_user\<lparr> social_shares := 4, total_engagement := 60 \<rparr>)"
    by (simp add: load_progress_def reliable_def sharing_db_def)
  have ok: "\<not> progress_update_error (reliable 90000000)"
    by (simp add: reliable_def)
  have ev: "(case eventData share_request of None \<Rightarrow> None | Some d \<Rightarrow> engagement d) = Some 50"
    by (simp add: share_request_def)
  from social_share_update [OF req load ok] ev show ?thesis by auto
qed

text \<open>
  Claim C7. Whatever the events and the environments they meet, the maximum streak stored
  for a user never falls below its value before the events.
\<close>

theorem max_consecutive_days_never_decreases:
  assumes "user_badge_progress db u = Some p"
  shows "\<exists>p'. user_badge_progress (run db events) u = Some p'
            \<and> max_consecutive_days p \<le> max_consecutive_days p'"
  using assms
proof (induction events arbitrary: db p)
  case Nil
  then show ?case by simp
next
  case (Cons e events)
  obtain env req where e: "e = (env, req)" by (cases e)
  from handler_max [OF Cons.prems, of env req] obtain p1 where
    p1: "user_badge_progress (tables (handler env db req)) u = Some p1"
      "max_consecutive_days p \<le> max_consecutive_days p1" by blast
  from Cons.IH [OF p1(1)] obtain p' where
    "user_badge_progress (run (tables (handler env db req)) events) u = Some p'"
    "max_consecutive_days p1 \<le> max_consecutive_days p'" by blast
  with p1(2) e show ?case by auto
qed

theorem max_consecutive_days_never_decreases_witness:
  "\<exists>p'. user_badge_progress
           (run regular_db [(reliable 350000000, transaction_request)]) ''u1'' = Some p'
      \<and> max_consecutive_days regular_user \<le> max_consecutive_days p'
      \<and> consecutive_days p' = 1 \<and> max_consecutive_days p' = 6"
proof -
  have "user_badge_progress regular_db ''u1'' = Some regular_user"
    by (simp add: regular_db_def)
  from max_consecutive_days_never_decreases [OF this]
  obtain p' where "user_badge_progress
      (run regular_db [(reliable 350000000, transaction_request)]) ''u1'' = Some p'"
    and "max_consecutive_days regular_user \<le> max_consecutive_days p'"
    by blast
  with late_transaction_streak show ?thesis by auto
qed

section \<open>Unlocks and the identity badge\<close>

text \<open>
  A user holds the newcomer tier and the legend tier, and the legend tier has been
  deactivated. The catalog query loads active badges only, so the handler answers and
  stores newcomer, which is not of the highest order among the identity-layer progression
  badges the user holds; legend is.
\<close>

theorem deactivated_tier_counterexample:
  "unlocked_ids retired_db ''u1'' = {''id-newcomer'', ''id-legend''}
   \<and> response (handler (reliable 90000000) retired_db daily_check_request) = Success
       \<lparr> newUnlocks = [], intentScore = 13 / 5, currentIdentityBadge = Some ''newcomer'',
         totalTransactions = 50, uniqueProtocols = 3, consecutiveDays = 6 \<rparr>
   \<and> map_option current_identity_badge
        (user_badge_progress (tables (handler (reliable 90000000) retired_db daily_check_request))
           ''u1'') = Some (Some ''newcomer'')
   \<and> \<not> highest_unlocked_identity (badges retired_db) {''id-newcomer'', ''id-legend''} []
         (Some ''newcomer'')
   \<and> highest_unlocked_identity (badges retired_db) {''id-newcomer'', ''id-legend''} []
       (Some ''legend'')"
  by code_simp

text \<open>When the final update reports an error, the response carries the new identity badge
  and the row keeps the old one.\<close>

lemma stale_identity_badge_after_failed_write:
  "response (handler (write_fails 90000000) regular_db transaction_request) = Success
     \<lparr> newUnlocks = [''active'', ''on-chain'', ''arcflow-witness'', ''arc-mainnet'', ''voice''],
       intentScore = 209 / 75, currentIdentityBadge = Some ''active'',
       totalTransactions = 51, uniqueProtocols = 3, consecutiveDays = 7 \<rparr>
   \<and> map_option current_identity_badge
        (user_badge_progress (tables (handler (write_fails 90000000) regular_db transaction_request))
           ''u1'') = Some None"
  by code_simp

text \<open>
  Claim C6, amended. When a request is handled to its success response, the identity badge
  of the response is the slug of an active identity-layer progression badge of the highest
  order key among those whose id is in the user's unlock rows or whose slug was unlocked
  in this call, or none when there is no such active badge; and it is the identity badge
  stored on the progress row when the final update is applied.
\<close>

theorem identity_badge_is_highest_active:
  assumes "userId req = Some uid" and "walletAddress req = Some wallet"
    and "uid \<noteq> []" and "wallet \<noteq> []"
    and "\<not> progress_select_error env" and "\<not> progress_create_error env"
    and "\<not> progress_update_error env"
    and "\<not> badges_error env" and "\<not> unlocks_error env"
  shows "\<exists>r. response (handler env db req) = Success r
           \<and> highest_unlocked_identity (filter is_active (badges db))
                (set (map ul_badge_id (filter (\<lambda>u. ul_user_id u = uid) (badge_unlocks db))))
                (newUnlocks r) (currentIdentityBadge r)
           \<and> (\<not> score_update_error env \<longrightarrow>
                (\<exists>p'. user_badge_progress (tables (handler env db req)) uid = Some p'
                      \<and> current_identity_badge p' = currentIdentityBadge r))"
proof -
  from handler_passes_switch [OF assms(5-7), of db uid wallet req]
  obtain db1 progress0 row progress where
    load: "load_progress env db uid wallet = Some (db1, progress0)" and
    event: "apply_event env req progress0 = Some (row, progress)"
    by blast
  have catalog: "active_badges db = filter is_active (badges db)"
    "unlocked_ids db uid
       = set (map ul_badge_id (filter (\<lambda>u. ul_user_id u = uid) (badge_unlocks db)))"
    by (simp_all add: active_badges_def unlocked_ids_def)
  show ?thesis
    unfolding handler_stages [OF assms(1-4) load event] evaluate_success [OF assms(8,9)]
    using identity_badge_highest [of "active_badges db" "unlocked_ids db uid"]
    by (simp add: stored_tables load_progress_catalog [OF load] catalog)
qed

theorem identity_badge_is_highest_active_witness:
  "\<exists>r. response (handler (reliable 90000000) regular_db transaction_request) = Success r
      \<and> currentIdentityBadge r = Some ''active''
      \<and> (\<exists>p'. user_badge_progress
                 (tables (handler (reliable 90000000) regular_db transaction_request)) ''u1''
                 = Some p'
               \<and> current_identity_badge p' = Some ''active'')"
proof -
  have flags: "\<not> progress_select_error (reliable 90000000)"
    "\<not> progress_create_error (reliable 90000000)"
    "\<not> progress_update_error (reliable 90000000)"
    "\<not> badges_error (reliable 90000000)" "\<not> unlocks_error (reliable 90000000)"
    "\<not> score_update_error (reliable 90000000)"
    by (simp_all add: reliable_def)
  from identity_badge_is_highest_active [OF scenario_request flags(1-5), of regular_db]
  obtain r where
    "response (handler (reliable 90000000) regular_db transaction_request) = Success r"
    "\<not> score_update_error (reliable 90000000) \<longrightarrow>
       (\<exists>p'. user_badge_progress
               (tables (handler (reliable 90000000) regular_db transaction_request)) ''u1''
               = Some p'
             \<and> current_identity_badge p' = currentIdentityBadge r)"
    by blast
  with regular_transaction_outcome flags(6) show ?thesis by auto
qed

text \<open>
  A new user makes a transaction while the insert of the on-chain unlock reports an error.
  The criteria of the on-chain badge hold and its insert fails; the console then holds the
  line of the request and one line for each badge that did unlock, and no line for the
  failure.
\<close>

theorem unlock_failure_not_logged_counterexample:
  "checkBadgeCriteria (now (on_chain_fails 90000000)) on_chain
     (transaction_progress 1 0 (eventData transaction_request) (new_progress ''u1'' ''0xabc''))
   \<and> unlock_error (on_chain_fails 90000000) on_chain
   \<and> console (handler (on_chain_fails 90000000) fresh_db transaction_request) =
       [''[badge-service] Processing transaction for wallet 0xabc'',
        ''[badge-service] Unlocked badge: Newcomer for 0xabc'',
        ''[badge-service] Unlocked badge: ArcFlow Witness for 0xabc'',
        ''[badge-service] Unlocked badge: Arc Mainnet Pioneer for 0xabc'',
        ''[badge-service] Unlocked badge: Voice for 0xabc'']"
  by code_simp

text \<open>
  Claim C9, amended. In the unlock loop an insert that reports an error is skipped without
  a log line; it does not abort the evaluation of the remaining badges and is not reported
  to the caller. The response is the success response; \<^verbatim>\<open>newUnlocks\<close> holds, in catalog
  order, exactly the badges not yet unlocked whose criteria hold and whose insert
  succeeded; these are the rows added and the badges logged.
\<close>

theorem unlock_failure_is_skipped:
  assumes "userId req = Some uid" and "walletAddress req = Some wallet"
    and "uid \<noteq> []" and "wallet \<noteq> []"
    and "load_progress env db uid wallet = Some (db1, progress0)"
    and "apply_event env req progress0 = Some (row, progress)"
    and "\<not> badges_error env" and "\<not> unlocks_error env"
  shows "\<exists>r. response (handler env db req) = Success r
           \<and> newUnlocks r = map slug
               (filter (\<lambda>b. badge_id b \<notin> unlocked_ids db uid
                             \<and> checkBadgeCriteria (now env) b progress \<and> \<not> unlock_error env b)
                  (active_badges db))
           \<and> badge_unlocks (tables (handler env db req)) =
               badge_unlocks db @ map (unlock_row req uid wallet)
                 (filter (\<lambda>b. badge_id b \<notin> unlocked_ids db uid
                               \<and> checkBadgeCriteria (now env) b progress \<and> \<not> unlock_error env b)
                    (active_badges db))
           \<and> console (handler env db req) =
               processing_line (action req) wallet # map (unlocked_line wallet)
                 (filter (\<lambda>b. badge_id b \<notin> unlocked_ids db uid
                               \<and> checkBadgeCriteria (now env) b progress \<and> \<not> unlock_error env b)
                    (active_badges db))"
  unfolding handler_stages [OF assms(1-6)] evaluate_success [OF assms(7,8)]
  by (simp add: stored_tables load_progress_catalog [OF assms(5)]
        load_progress_tables(2) [OF assms(5)])

theorem unlock_failure_is_skipped_witness:
  "\<exists>r. response (handler (on_chain_fails 90000000) fresh_db transaction_request) = Success r
      \<and> newUnlocks r = [''newcomer'', ''arcflow-witness'', ''arc-mainnet'', ''voice'']"
proof -
  from unlock_failure_is_skipped [OF scenario_request fresh_load fresh_event scenario_flags]
  show ?thesis unfolding fresh_transaction_unlocks by blast
qed

end
